theory Spec2Isabelle
  imports Complex_Main "HOL-Library.Multiset"
begin

section \<open>Data model (src/server/src/schema.ts, src/server/src/db/schema.ts)\<close>

text \<open>
  The enums of the schema. Record fields carry a prefix naming their table or input
  type (\<open>h_\<close> housing record, \<open>d_\<close> district, \<open>v_\<close> village, \<open>b_\<close> backlog,
  \<open>a_\<close> audit log, \<open>ci_\<close>/\<open>ui_\<close>/\<open>vi_\<close>/\<open>cb_\<close> the create, update, verify and
  create-backlog inputs, \<open>uv_\<close> the object handed to the query builder's \<open>set\<close>),
  since the source reuses \<open>id\<close>, \<open>district_id\<close>, ... in every table.
\<close>

datatype housing_status = RTLH | RLH
datatype eligibility_category = POOR | VERY_POOR | MODERATE | NOT_ELIGIBLE
datatype verification_status = PENDING | VERIFIED | REJECTED
datatype backlog_type = NO_HOUSE | UNINHABITABLE_HOUSE
datatype audit_action = CREATE | UPDATE | DELETE | VERIFY | LOGIN | EXPORT

text \<open>
  An optional, nullable property of a JavaScript object: absent (\<open>undefined\<close>),
  \<open>null\<close>, or a value. A property that is optional but not nullable is an \<open>option\<close>
  (\<open>None\<close> is \<open>undefined\<close>); a nullable column is an \<open>option\<close> (\<open>None\<close> is SQL NULL).
\<close>

datatype 'a js = Undefined | Null | Val 'a

text \<open>Timestamps are milliseconds since the epoch.\<close>

type_synonym timestamp = int

text \<open>
  A \<open>numeric(p, s)\<close> column holds decimal text. The model keeps the number the text
  denotes; \<open>toString\<close> writes it and \<open>parseFloat\<close> reads it back.
\<close>

datatype numeric = Numeric rat

definition toString :: "rat \<Rightarrow> numeric" where
  "toString x = Numeric x"

fun parseFloat :: "numeric \<Rightarrow> rat" where
  "parseFloat (Numeric x) = x"

record district =
  d_id :: int
  d_name :: string
  d_code :: string
  d_created_at :: timestamp
  d_updated_at :: timestamp

record village =
  v_id :: int
  v_name :: string
  v_code :: string
  v_district_id :: int
  v_created_at :: timestamp
  v_updated_at :: timestamp

text \<open>
  A housing record; \<open>'n\<close> is \<open>numeric\<close> for a row of \<open>housing_records\<close> and \<open>rat\<close> for
  the \<open>HousingRecord\<close> the handlers return.
\<close>

record 'n housing_record =
  h_id :: int
  h_head_of_household :: string
  h_nik :: string
  h_housing_status :: housing_status
  h_eligibility_category :: eligibility_category
  h_verification_status :: verification_status
  h_district_id :: int
  h_village_id :: int
  h_latitude :: "'n option"
  h_longitude :: "'n option"
  h_address :: string
  h_phone :: "string option"
  h_family_members :: int
  h_monthly_income :: "'n option"
  h_house_condition_score :: "int option"
  h_notes :: "string option"
  h_verified_by :: "int option"
  h_verified_at :: "timestamp option"
  h_created_by :: int
  h_created_at :: timestamp
  h_updated_at :: timestamp

record backlog =
  b_id :: int
  b_district_id :: int
  b_village_id :: int
  b_backlog_type :: backlog_type
  b_family_count :: int
  b_year :: int
  b_month :: int
  b_created_by :: int
  b_created_at :: timestamp
  b_updated_at :: timestamp

record audit_log =
  a_id :: int
  a_user_id :: int
  a_action :: audit_action
  a_resource_type :: string
  a_resource_id :: "int option"
  a_details :: "string option"
  a_ip_address :: "string option"
  a_created_at :: timestamp

text \<open>
  The database: one list of rows per table, in storage order, and the next value of
  each \<open>serial\<close> column the handlers below insert into. The tables declare no foreign
  key. Values are taken to fit their column types (an \<open>integer\<close> column gets an
  integer within range, a \<open>numeric(p, s)\<close> column a number within its precision), so
  the only refusals of the storage are those of its unique constraints.
\<close>

record db =
  districts :: "district list"
  villages :: "village list"
  housing_records :: "numeric housing_record list"
  housing_records_id_seq :: int
  backlogs :: "backlog list"
  backlogs_id_seq :: int
  audit_logs :: "audit_log list"
  audit_logs_id_seq :: int

text \<open>
  Every \<open>throw new Error(...)\<close> of the handlers, and the violation of a unique
  constraint of db/schema.ts raised by the storage itself.
\<close>

datatype error =
    District_not_found
  | Village_not_found_or_does_not_belong
  | NIK_already_exists
  | Housing_record_not_found
  | Village_not_found
  | District_does_not_exist int
  | Village_does_not_exist_in_district int int
  | Backlog_entry_already_exists
  | Backlog_does_not_exist int
  | Unique_violation string

section \<open>Input types (src/server/src/schema.ts)\<close>

record create_input =
  ci_head_of_household :: string
  ci_nik :: string
  ci_housing_status :: housing_status
  ci_eligibility_category :: eligibility_category
  ci_district_id :: int
  ci_village_id :: int
  ci_latitude :: "rat js"
  ci_longitude :: "rat js"
  ci_address :: string
  ci_phone :: "string js"
  ci_family_members :: int
  ci_monthly_income :: "rat js"
  ci_house_condition_score :: "int js"
  ci_notes :: "string js"

record update_input =
  ui_id :: int
  ui_head_of_household :: "string option"
  ui_housing_status :: "housing_status option"
  ui_eligibility_category :: "eligibility_category option"
  ui_district_id :: "int option"
  ui_village_id :: "int option"
  ui_latitude :: "rat js"
  ui_longitude :: "rat js"
  ui_address :: "string option"
  ui_phone :: "string js"
  ui_family_members :: "int option"
  ui_monthly_income :: "rat js"
  ui_house_condition_score :: "int js"
  ui_notes :: "string js"

record verify_input =
  vi_id :: int
  vi_verification_status :: verification_status
  vi_notes :: "string js"

record create_backlog_input =
  cb_district_id :: int
  cb_village_id :: int
  cb_backlog_type :: backlog_type
  cb_family_count :: int
  cb_year :: int
  cb_month :: int

section \<open>JavaScript operators used by the handlers\<close>

text \<open>\<open>x || null\<close> on an optional string: the empty string is falsy, as are \<open>undefined\<close> and \<open>null\<close>.\<close>

fun str_or_null :: "string js \<Rightarrow> string option" where
  "str_or_null (Val s) = (if s = [] then None else Some s)"
| "str_or_null _ = None"

text \<open>\<open>x || null\<close> on an optional number: zero is falsy.\<close>

fun num_or_null :: "int js \<Rightarrow> int option" where
  "num_or_null (Val n) = (if n = 0 then None else Some n)"
| "num_or_null _ = None"

text \<open>
  \<open>x?.toString()\<close>: the text of a number, and \<open>undefined\<close> for \<open>undefined\<close> and for
  \<open>null\<close> alike.
\<close>

fun opt_toString :: "rat js \<Rightarrow> numeric js" where
  "opt_toString (Val x) = Val (toString x)"
| "opt_toString _ = Undefined"

text \<open>
  A key of the object given to \<open>insert(...).values\<close>: the query builder leaves out a
  key whose value is \<open>undefined\<close>, and a nullable column without a default is then NULL.
\<close>

fun insert_col :: "'a js \<Rightarrow> 'a option" where
  "insert_col (Val x) = Some x"
| "insert_col _ = None"

text \<open>
  \<open>record.latitude ? parseFloat(record.latitude) : null\<close> on a numeric column: the text
  of a number is never the empty string, so it is truthy whenever it is not NULL.
\<close>

definition numeric_out :: "numeric option \<Rightarrow> rat option" where
  "numeric_out c = (case c of None \<Rightarrow> None | Some t \<Rightarrow> Some (parseFloat t))"

text \<open>
  The object every handler returns: the row spread, with the three numeric columns
  converted back to numbers.
\<close>

definition present :: "numeric housing_record \<Rightarrow> rat housing_record" where
  "present r =
     \<lparr> h_id = h_id r,
       h_head_of_household = h_head_of_household r,
       h_nik = h_nik r,
       h_housing_status = h_housing_status r,
       h_eligibility_category = h_eligibility_category r,
       h_verification_status = h_verification_status r,
       h_district_id = h_district_id r,
       h_village_id = h_village_id r,
       h_latitude = numeric_out (h_latitude r),
       h_longitude = numeric_out (h_longitude r),
       h_address = h_address r,
       h_phone = h_phone r,
       h_family_members = h_family_members r,
       h_monthly_income = numeric_out (h_monthly_income r),
       h_house_condition_score = h_house_condition_score r,
       h_notes = h_notes r,
       h_verified_by = h_verified_by r,
       h_verified_at = h_verified_at r,
       h_created_by = h_created_by r,
       h_created_at = h_created_at r,
       h_updated_at = h_updated_at r \<rparr>"

section \<open>Housing records (src/server/src/handlers/housing_records.ts)\<close>

text \<open>
  \<open>db.insert(housingRecordsTable).values(...).returning()\<close>: the storage refuses a row
  whose \<open>nik\<close> is already there (\<open>housing_records_nik_unique\<close>); otherwise it appends
  the row and returns it. The row's \<open>id\<close> is the next value of the sequence;
  \<open>verification_status\<close> defaults to PENDING, \<open>created_at\<close> and \<open>updated_at\<close> to the
  time of the insert, and \<open>verified_by\<close>, \<open>verified_at\<close> to NULL.
\<close>

definition new_housing_row ::
  "create_input \<Rightarrow> int \<Rightarrow> timestamp \<Rightarrow> int \<Rightarrow> numeric housing_record" where
  "new_housing_row input createdBy now i =
     \<lparr> h_id = i,
       h_head_of_household = ci_head_of_household input,
       h_nik = ci_nik input,
       h_housing_status = ci_housing_status input,
       h_eligibility_category = ci_eligibility_category input,
       h_verification_status = PENDING,
       h_district_id = ci_district_id input,
       h_village_id = ci_village_id input,
       h_latitude = insert_col (opt_toString (ci_latitude input)),
       h_longitude = insert_col (opt_toString (ci_longitude input)),
       h_address = ci_address input,
       h_phone = str_or_null (ci_phone input),
       h_family_members = ci_family_members input,
       h_monthly_income = insert_col (opt_toString (ci_monthly_income input)),
       h_house_condition_score = num_or_null (ci_house_condition_score input),
       h_notes = str_or_null (ci_notes input),
       h_verified_by = None,
       h_verified_at = None,
       h_created_by = createdBy,
       h_created_at = now,
       h_updated_at = now \<rparr>"

definition insert_housing_record ::
  "create_input \<Rightarrow> int \<Rightarrow> timestamp \<Rightarrow> db \<Rightarrow> (error + numeric housing_record) \<times> db" where
  "insert_housing_record input createdBy now s =
     (if ci_nik input \<in> h_nik ` set (housing_records s)
      then (Inl (Unique_violation ''housing_records_nik_unique''), s)
      else
        let row = new_housing_row input createdBy now (housing_records_id_seq s)
        in (Inr row,
            s\<lparr> housing_records := housing_records s @ [row],
               housing_records_id_seq := housing_records_id_seq s + 1 \<rparr>))"

text \<open>
  \<open>createHousingRecord(input, createdBy)\<close>; \<open>now\<close> is the storage's clock at the
  insert. The three checks come first, in the source's order, each throwing before
  anything is written.
\<close>

definition createHousingRecord ::
  "create_input \<Rightarrow> int \<Rightarrow> timestamp \<Rightarrow> db \<Rightarrow> (error + rat housing_record) \<times> db" where
  "createHousingRecord input createdBy now s =
     (let districtExists = filter (\<lambda>d. d_id d = ci_district_id input) (districts s) in
      if districtExists = [] then (Inl District_not_found, s)
      else
        let villageExists =
              filter (\<lambda>v. v_id v = ci_village_id input \<and> v_district_id v = ci_district_id input)
                (villages s) in
        if villageExists = [] then (Inl Village_not_found_or_does_not_belong, s)
        else
          let existingNik = filter (\<lambda>r. h_nik r = ci_nik input) (housing_records s) in
          if length existingNik > 0 then (Inl NIK_already_exists, s)
          else
            (case insert_housing_record input createdBy now s of
               (Inl e, s') \<Rightarrow> (Inl e, s')
             | (Inr record, s') \<Rightarrow> (Inr (present record), s')))"

text \<open>
  The object handed to \<open>db.update(...).set\<close>. A key that is absent and a key whose
  value is \<open>undefined\<close> are the same to the query builder, which drops both from the
  SET clause; \<open>null\<close> writes NULL. A column that is NOT NULL has an \<open>option\<close> here
  (\<open>None\<close>: not in the SET clause), a nullable one a \<open>js\<close>.
\<close>

record update_values =
  uv_updated_at :: timestamp
  uv_head_of_household :: "string option"
  uv_housing_status :: "housing_status option"
  uv_eligibility_category :: "eligibility_category option"
  uv_district_id :: "int option"
  uv_village_id :: "int option"
  uv_latitude :: "numeric js"
  uv_longitude :: "numeric js"
  uv_address :: "string option"
  uv_phone :: "string js"
  uv_family_members :: "int option"
  uv_monthly_income :: "numeric js"
  uv_house_condition_score :: "int js"
  uv_notes :: "string js"
  uv_verification_status :: "verification_status option"
  uv_verified_by :: "int js"
  uv_verified_at :: "timestamp js"

fun set_col :: "'a option \<Rightarrow> 'a \<Rightarrow> 'a" where
  "set_col None old = old"
| "set_col (Some x) old = x"

fun set_nullable :: "'a js \<Rightarrow> 'a option \<Rightarrow> 'a option" where
  "set_nullable Undefined old = old"
| "set_nullable Null old = None"
| "set_nullable (Val x) old = Some x"

text \<open>The effect of the SET clause on one row.\<close>

definition apply_set :: "update_values \<Rightarrow> numeric housing_record \<Rightarrow> numeric housing_record" where
  "apply_set u r =
     r\<lparr> h_updated_at := uv_updated_at u,
        h_head_of_household := set_col (uv_head_of_household u) (h_head_of_household r),
        h_housing_status := set_col (uv_housing_status u) (h_housing_status r),
        h_eligibility_category := set_col (uv_eligibility_category u) (h_eligibility_category r),
        h_district_id := set_col (uv_district_id u) (h_district_id r),
        h_village_id := set_col (uv_village_id u) (h_village_id r),
        h_latitude := set_nullable (uv_latitude u) (h_latitude r),
        h_longitude := set_nullable (uv_longitude u) (h_longitude r),
        h_address := set_col (uv_address u) (h_address r),
        h_phone := set_nullable (uv_phone u) (h_phone r),
        h_family_members := set_col (uv_family_members u) (h_family_members r),
        h_monthly_income := set_nullable (uv_monthly_income u) (h_monthly_income r),
        h_house_condition_score :=
          set_nullable (uv_house_condition_score u) (h_house_condition_score r),
        h_notes := set_nullable (uv_notes u) (h_notes r),
        h_verification_status := set_col (uv_verification_status u) (h_verification_status r),
        h_verified_by := set_nullable (uv_verified_by u) (h_verified_by r),
        h_verified_at := set_nullable (uv_verified_at u) (h_verified_at r) \<rparr>"

text \<open>\<open>db.update(housingRecordsTable).set(u).where(eq(id, i))\<close>: every row with that id.\<close>

definition update_where_id ::
  "int \<Rightarrow> update_values \<Rightarrow> numeric housing_record list \<Rightarrow> numeric housing_record list" where
  "update_where_id i u rows = map (\<lambda>r. if h_id r = i then apply_set u r else r) rows"

text \<open>Truthiness of an optional id in a condition: \<open>undefined\<close> and \<open>0\<close> are falsy.\<close>

fun truthy_id :: "int option \<Rightarrow> bool" where
  "truthy_id None = False"
| "truthy_id (Some n) = (n \<noteq> 0)"

text \<open>
  The \<open>if / else if / else if\<close> of updateHousingRecord that validates the ids of the
  input: the compound check when both are truthy, otherwise the existence of the one
  that is. \<open>None\<close>: nothing thrown.
\<close>

definition validate_location :: "update_input \<Rightarrow> db \<Rightarrow> error option" where
  "validate_location input s =
     (if truthy_id (ui_district_id input) \<and> truthy_id (ui_village_id input) then
        (let villageExists =
               filter (\<lambda>v. Some (v_id v) = ui_village_id input
                          \<and> Some (v_district_id v) = ui_district_id input) (villages s)
         in if villageExists = [] then Some Village_not_found_or_does_not_belong else None)
      else if truthy_id (ui_district_id input) then
        (let districtExists = filter (\<lambda>d. Some (d_id d) = ui_district_id input) (districts s)
         in if districtExists = [] then Some District_not_found else None)
      else if truthy_id (ui_village_id input) then
        (let villageExists = filter (\<lambda>v. Some (v_id v) = ui_village_id input) (villages s)
         in if villageExists = [] then Some Village_not_found else None)
      else None)"

text \<open>
  \<open>significantFields.some(field => input[field] !== undefined)\<close> over
  head_of_household, housing_status, eligibility_category, address, family_members.
\<close>

definition hasSignificantChanges :: "update_input \<Rightarrow> bool" where
  "hasSignificantChanges input =
     (ui_head_of_household input \<noteq> None \<or> ui_housing_status input \<noteq> None
      \<or> ui_eligibility_category input \<noteq> None \<or> ui_address input \<noteq> None
      \<or> ui_family_members input \<noteq> None)"

text \<open>
  The \<open>updateValues\<close> object: \<open>updated_at\<close>, then one key for each property of the input
  that is not \<open>undefined\<close> (the numeric ones through \<open>?.toString()\<close>), then the reset of
  the verification when a significant field is present.
\<close>

definition build_update_values :: "update_input \<Rightarrow> timestamp \<Rightarrow> update_values" where
  "build_update_values input now =
     (let updateValues =
        \<lparr> uv_updated_at = now,
          uv_head_of_household = ui_head_of_household input,
          uv_housing_status = ui_housing_status input,
          uv_eligibility_category = ui_eligibility_category input,
          uv_district_id = ui_district_id input,
          uv_village_id = ui_village_id input,
          uv_latitude =
            (if ui_latitude input \<noteq> Undefined then opt_toString (ui_latitude input) else Undefined),
          uv_longitude =
            (if ui_longitude input \<noteq> Undefined then opt_toString (ui_longitude input) else Undefined),
          uv_address = ui_address input,
          uv_phone = ui_phone input,
          uv_family_members = ui_family_members input,
          uv_monthly_income =
            (if ui_monthly_income input \<noteq> Undefined then opt_toString (ui_monthly_income input)
             else Undefined),
          uv_house_condition_score = ui_house_condition_score input,
          uv_notes = ui_notes input,
          uv_verification_status = None,
          uv_verified_by = Undefined,
          uv_verified_at = Undefined \<rparr>
      in if hasSignificantChanges input
         then updateValues\<lparr> uv_verification_status := Some PENDING,
                uv_verified_by := Null, uv_verified_at := Null \<rparr>
         else updateValues)"

text \<open>
  \<open>updateHousingRecord(input, updatedBy)\<close>; \<open>now\<close> is the \<open>new Date()\<close> of
  \<open>updateValues\<close>. \<open>updatedBy\<close> is not used by the source. The returned record is
  \<open>results[0]\<close>, the first row the UPDATE returns.
\<close>

definition updateHousingRecord ::
  "update_input \<Rightarrow> int \<Rightarrow> timestamp \<Rightarrow> db \<Rightarrow> (error + rat housing_record) \<times> db" where
  "updateHousingRecord input updatedBy now s =
     (case filter (\<lambda>r. h_id r = ui_id input) (housing_records s) of
        [] \<Rightarrow> (Inl Housing_record_not_found, s)
      | existing # _ \<Rightarrow>
          (case validate_location input s of
             Some e \<Rightarrow> (Inl e, s)
           | None \<Rightarrow>
               let updateValues = build_update_values input now in
               (Inr (present (apply_set updateValues existing)),
                s\<lparr> housing_records :=
                     update_where_id (ui_id input) updateValues (housing_records s) \<rparr>)))"

text \<open>
  \<open>input.notes || existingRecord[0].notes\<close>: the input's notes when truthy (a
  non-empty string), otherwise the notes of the record as read before the update.
\<close>

definition notes_or_existing :: "string js \<Rightarrow> string option \<Rightarrow> string option" where
  "notes_or_existing n old = (case str_or_null n of Some t \<Rightarrow> Some t | None \<Rightarrow> old)"

fun as_js :: "'a option \<Rightarrow> 'a js" where
  "as_js None = Null"
| "as_js (Some x) = Val x"

text \<open>
  \<open>verifyHousingRecord(input, verifiedBy)\<close>. The object given to \<open>set\<close> reads the clock
  twice: \<open>now_verified\<close> for \<open>verified_at\<close>, then \<open>now_updated\<close> for \<open>updated_at\<close>.
\<close>

definition verify_values ::
  "verify_input \<Rightarrow> int \<Rightarrow> timestamp \<Rightarrow> timestamp \<Rightarrow> string option \<Rightarrow> update_values" where
  "verify_values input verifiedBy now_verified now_updated existing_notes =
     \<lparr> uv_updated_at = now_updated,
       uv_head_of_household = None,
       uv_housing_status = None,
       uv_eligibility_category = None,
       uv_district_id = None,
       uv_village_id = None,
       uv_latitude = Undefined,
       uv_longitude = Undefined,
       uv_address = None,
       uv_phone = Undefined,
       uv_family_members = None,
       uv_monthly_income = Undefined,
       uv_house_condition_score = Undefined,
       uv_notes = as_js (notes_or_existing (vi_notes input) existing_notes),
       uv_verification_status = Some (vi_verification_status input),
       uv_verified_by = Val verifiedBy,
       uv_verified_at = Val now_verified \<rparr>"

definition verifyHousingRecord ::
  "verify_input \<Rightarrow> int \<Rightarrow> timestamp \<Rightarrow> timestamp \<Rightarrow> db \<Rightarrow> (error + rat housing_record) \<times> db" where
  "verifyHousingRecord input verifiedBy now_verified now_updated s =
     (case filter (\<lambda>r. h_id r = vi_id input) (housing_records s) of
        [] \<Rightarrow> (Inl Housing_record_not_found, s)
      | existing # _ \<Rightarrow>
          let values = verify_values input verifiedBy now_verified now_updated (h_notes existing) in
          (Inr (present (apply_set values existing)),
           s\<lparr> housing_records := update_where_id (vi_id input) values (housing_records s) \<rparr>))"

text \<open>\<open>deleteHousingRecord(id, deletedBy)\<close>: a hard delete; \<open>deletedBy\<close> is not used.\<close>

definition deleteHousingRecord :: "int \<Rightarrow> int \<Rightarrow> db \<Rightarrow> (error + bool) \<times> db" where
  "deleteHousingRecord i deletedBy s =
     (if filter (\<lambda>r. h_id r = i) (housing_records s) = [] then (Inl Housing_record_not_found, s)
      else (Inr True, s\<lparr> housing_records := filter (\<lambda>r. h_id r \<noteq> i) (housing_records s) \<rparr>))"

section \<open>Backlogs (handlers/backlogs.ts, under src/unnamed/part_007)\<close>

text \<open>The five columns of the unique constraint \<open>backlogs_unique_entry\<close>.\<close>

definition same_entry :: "create_backlog_input \<Rightarrow> backlog \<Rightarrow> bool" where
  "same_entry input b =
     (b_district_id b = cb_district_id input \<and> b_village_id b = cb_village_id input
      \<and> b_backlog_type b = cb_backlog_type input \<and> b_year b = cb_year input
      \<and> b_month b = cb_month input)"

text \<open>
  \<open>db.insert(backlogsTable).values(...).returning()\<close>: refused by the storage when the
  five columns are already there together, otherwise appended with the next id.
\<close>

definition insert_backlog ::
  "create_backlog_input \<Rightarrow> int \<Rightarrow> timestamp \<Rightarrow> db \<Rightarrow> (error + backlog) \<times> db" where
  "insert_backlog input createdBy now s =
     (if filter (same_entry input) (backlogs s) \<noteq> []
      then (Inl (Unique_violation ''backlogs_unique_entry''), s)
      else
        let row =
          \<lparr> b_id = backlogs_id_seq s,
            b_district_id = cb_district_id input,
            b_village_id = cb_village_id input,
            b_backlog_type = cb_backlog_type input,
            b_family_count = cb_family_count input,
            b_year = cb_year input,
            b_month = cb_month input,
            b_created_by = createdBy,
            b_created_at = now,
            b_updated_at = now \<rparr>
        in (Inr row, s\<lparr> backlogs := backlogs s @ [row], backlogs_id_seq := backlogs_id_seq s + 1 \<rparr>))"

definition createBacklog ::
  "create_backlog_input \<Rightarrow> int \<Rightarrow> timestamp \<Rightarrow> db \<Rightarrow> (error + backlog) \<times> db" where
  "createBacklog input createdBy now s =
     (let districtExists = filter (\<lambda>d. d_id d = cb_district_id input) (districts s) in
      if districtExists = [] then (Inl (District_does_not_exist (cb_district_id input)), s)
      else
        let villageExists =
              filter (\<lambda>v. v_id v = cb_village_id input \<and> v_district_id v = cb_district_id input)
                (villages s) in
        if villageExists = []
        then (Inl (Village_does_not_exist_in_district (cb_village_id input) (cb_district_id input)), s)
        else
          let existingBacklog =
                filter (\<lambda>b. b_district_id b = cb_district_id input
                           \<and> b_village_id b = cb_village_id input
                           \<and> b_backlog_type b = cb_backlog_type input
                           \<and> b_year b = cb_year input
                           \<and> b_month b = cb_month input) (backlogs s) in
          if length existingBacklog > 0 then (Inl Backlog_entry_already_exists, s)
          else insert_backlog input createdBy now s)"

definition updateBacklog :: "int \<Rightarrow> int \<Rightarrow> int \<Rightarrow> timestamp \<Rightarrow> db \<Rightarrow> (error + backlog) \<times> db" where
  "updateBacklog i familyCount updatedBy now s =
     (case filter (\<lambda>b. b_id b = i) (backlogs s) of
        [] \<Rightarrow> (Inl (Backlog_does_not_exist i), s)
      | existing # _ \<Rightarrow>
          (Inr (existing\<lparr> b_family_count := familyCount, b_updated_at := now \<rparr>),
           s\<lparr> backlogs :=
                map (\<lambda>b. if b_id b = i then b\<lparr> b_family_count := familyCount, b_updated_at := now \<rparr>
                          else b) (backlogs s) \<rparr>))"

text \<open>
  \<open>getBacklogsByDateRange(startYear, startMonth, endYear, endMonth)\<close>: the rows that
  satisfy the WHERE clause of the branch taken. Neither query has an ORDER BY, so the
  order of the array returned is the storage's choice: the result is the multiset of
  the rows.
\<close>

definition getBacklogsByDateRange :: "int \<Rightarrow> int \<Rightarrow> int \<Rightarrow> int \<Rightarrow> db \<Rightarrow> backlog multiset" where
  "getBacklogsByDateRange startYear startMonth endYear endMonth s =
     (if startYear = endYear then
        filter_mset
          (\<lambda>b. b_year b = startYear \<and> b_month b \<ge> startMonth \<and> b_month b \<le> endMonth)
          (mset (backlogs s))
      else
        filter_mset
          (\<lambda>b. (b_year b = startYear \<and> b_month b \<ge> startMonth)
               \<or> (b_year b = endYear \<and> b_month b \<le> endMonth)
               \<or> (b_year b \<ge> startYear + 1 \<and> b_year b \<le> endYear - 1))
          (mset (backlogs s)))"

text \<open>
  The order on (year, month) pairs the range is described with: by year first, then by
  month.
\<close>

definition ym_le :: "int \<times> int \<Rightarrow> int \<times> int \<Rightarrow> bool" where
  "ym_le p q = (fst p < fst q \<or> (fst p = fst q \<and> snd p \<le> snd q))"

definition in_range :: "int \<Rightarrow> int \<Rightarrow> int \<Rightarrow> int \<Rightarrow> backlog \<Rightarrow> bool" where
  "in_range startYear startMonth endYear endMonth b =
     (ym_le (startYear, startMonth) (b_year b, b_month b)
      \<and> ym_le (b_year b, b_month b) (endYear, endMonth))"

section \<open>Audit log (src/server/src/handlers/audit.ts)\<close>

text \<open>
  \<open>logAuditAction\<close>: the optional arguments go through \<open>|| null\<close>, so a resource id
  of \<open>0\<close> and empty texts are stored as NULL.
\<close>

fun id_or_null :: "int option \<Rightarrow> int option" where
  "id_or_null (Some n) = (if n = 0 then None else Some n)"
| "id_or_null None = None"

fun text_or_null :: "string option \<Rightarrow> string option" where
  "text_or_null (Some t) = (if t = [] then None else Some t)"
| "text_or_null None = None"

definition logAuditAction ::
  "int \<Rightarrow> audit_action \<Rightarrow> string \<Rightarrow> int option \<Rightarrow> string option \<Rightarrow> string option
     \<Rightarrow> timestamp \<Rightarrow> db \<Rightarrow> audit_log \<times> db" where
  "logAuditAction userId action resourceType resourceId details ipAddress now s =
     (let row =
        \<lparr> a_id = audit_logs_id_seq s,
          a_user_id = userId,
          a_action = action,
          a_resource_type = resourceType,
          a_resource_id = id_or_null resourceId,
          a_details = text_or_null details,
          a_ip_address = text_or_null ipAddress,
          a_created_at = now \<rparr>
      in (row, s\<lparr> audit_logs := audit_logs s @ [row], audit_logs_id_seq := audit_logs_id_seq s + 1 \<rparr>))"

text \<open>
  \<open>d.setDate(d.getDate() - n)\<close> on the current date: \<open>n\<close> days of 24 hours earlier
  (the server's zone has no clock change in between).
\<close>

definition days_before :: "timestamp \<Rightarrow> int \<Rightarrow> timestamp" where
  "days_before now n = now - n * 86400000"

record security_report =
  suspicious_activities :: int
  failed_logins :: int
  data_exports :: int
  recent_changes :: int

text \<open>\<open>select count() from audit_logs where ...\<close>\<close>

definition count_where :: "(audit_log \<Rightarrow> bool) \<Rightarrow> db \<Rightarrow> int" where
  "count_where p s = int (length (filter p (audit_logs s)))"

text \<open>
  \<open>getSecurityReport()\<close>. The clock is read twice: \<open>now_week\<close> for \<open>weekAgo\<close> and
  \<open>now_day\<close> for \<open>yesterdayAgo\<close>. \<open>Math.floor(count * 0.1)\<close> is taken over the
  rationals.
\<close>

definition getSecurityReport :: "timestamp \<Rightarrow> timestamp \<Rightarrow> db \<Rightarrow> security_report" where
  "getSecurityReport now_week now_day s =
     (let weekAgo = days_before now_week 7;
          failedLoginsResult = count_where (\<lambda>a. a_action a = LOGIN \<and> a_created_at a \<ge> weekAgo) s;
          dataExportsResult = count_where (\<lambda>a. a_action a = EXPORT \<and> a_created_at a \<ge> weekAgo) s;
          recentChangesResult = count_where (\<lambda>a. a_created_at a \<ge> weekAgo) s;
          yesterdayAgo = days_before now_day 1;
          suspiciousActivitiesResult = count_where (\<lambda>a. a_created_at a \<ge> yesterdayAgo) s;
          suspiciousActivities = \<lfloor>rat_of_int suspiciousActivitiesResult * (1 / 10)\<rfloor>
      in \<lparr> suspicious_activities = suspiciousActivities,
           failed_logins = failedLoginsResult,
           data_exports = dataExportsResult,
           recent_changes = recentChangesResult \<rparr>)"

section \<open>Invariants and reachable states\<close>

text \<open>No two housing records have the same nik.\<close>

definition nik_unique :: "db \<Rightarrow> bool" where
  "nik_unique s = distinct (map h_nik (housing_records s))"


text \<open>
  The states the housing-record store can reach: it starts empty, and changes by the
  four mutating handlers (whether they succeed or throw); every other handler leaves
  the table of housing records as it is.
\<close>

inductive reachable :: "db \<Rightarrow> bool" where
  start: "housing_records s = [] \<Longrightarrow> reachable s"
| create: "reachable s \<Longrightarrow> createHousingRecord input createdBy now s = (res, s') \<Longrightarrow> reachable s'"
| update: "reachable s \<Longrightarrow> updateHousingRecord uinput updatedBy now s = (res, s') \<Longrightarrow> reachable s'"
| verify:
    "reachable s \<Longrightarrow> verifyHousingRecord vinput verifiedBy now1 now2 s = (res, s') \<Longrightarrow> reachable s'"
| delete: "reachable s \<Longrightarrow> deleteHousingRecord i deletedBy s = (dres, s') \<Longrightarrow> reachable s'"
| other: "reachable s \<Longrightarrow> housing_records s' = housing_records s \<Longrightarrow> reachable s'"

text \<open>
  The states that come after a state \<open>s\<close>, as far as backlogs are concerned: the
  backlog table changes by createBacklog and updateBacklog only (whether they succeed
  or throw); every other handler leaves it as it is, and no handler removes or changes
  a district or a village (createDistrict and createVillage insert).
\<close>

inductive later :: "db \<Rightarrow> db \<Rightarrow> bool" where
  same: "later s s"
| create_backlog:
    "later s t \<Longrightarrow> createBacklog input createdBy now t = (res, t') \<Longrightarrow> later s t'"
| update_backlog:
    "later s t \<Longrightarrow> updateBacklog i familyCount updatedBy now t = (res, t') \<Longrightarrow> later s t'"
| other_handler:
    "later s t \<Longrightarrow> backlogs t' = backlogs t \<Longrightarrow> set (districts t) \<subseteq> set (districts t')
       \<Longrightarrow> set (villages t) \<subseteq> set (villages t') \<Longrightarrow> later s t'"

section \<open>Example data\<close>

text \<open>
  A small database used to evaluate the handlers: two districts, one village in each,
  and one housing record of village 1 in district 1 that user 7 verified at time 500.
\<close>

definition example_row :: "numeric housing_record" where
  "example_row =
     \<lparr> h_id = 1,
       h_head_of_household = ''Budi'',
       h_nik = ''3201010101010001'',
       h_housing_status = RTLH,
       h_eligibility_category = POOR,
       h_verification_status = VERIFIED,
       h_district_id = 1,
       h_village_id = 1,
       h_latitude = Some (Numeric (-6)),
       h_longitude = Some (Numeric 106),
       h_address = ''Jl. Merdeka 1'',
       h_phone = Some ''0812'',
       h_family_members = 4,
       h_monthly_income = Some (Numeric 2500000),
       h_house_condition_score = Some 35,
       h_notes = Some ''old notes'',
       h_verified_by = Some 7,
       h_verified_at = Some 500,
       h_created_by = 3,
       h_created_at = 100,
       h_updated_at = 500 \<rparr>"

definition empty_db :: db where
  "empty_db =
     \<lparr> districts =
         [\<lparr> d_id = 1, d_name = ''Pringsewu'', d_code = ''D1'', d_created_at = 0, d_updated_at = 0 \<rparr>,
          \<lparr> d_id = 2, d_name = ''Gadingrejo'', d_code = ''D2'', d_created_at = 0, d_updated_at = 0 \<rparr>],
       villages =
         [\<lparr> v_id = 1, v_name = ''Podomoro'', v_code = ''V1'', v_district_id = 1,
            v_created_at = 0, v_updated_at = 0 \<rparr>,
          \<lparr> v_id = 2, v_name = ''Wonodadi'', v_code = ''V1'', v_district_id = 2,
            v_created_at = 0, v_updated_at = 0 \<rparr>],
       housing_records = [],
       housing_records_id_seq = 1,
       backlogs = [],
       backlogs_id_seq = 1,
       audit_logs = [],
       audit_logs_id_seq = 1 \<rparr>"

definition example_db :: db where
  "example_db = empty_db\<lparr> housing_records := [example_row], housing_records_id_seq := 2 \<rparr>"

definition example_create :: create_input where
  "example_create =
     \<lparr> ci_head_of_household = ''Siti'',
       ci_nik = ''3201010101010002'',
       ci_housing_status = RLH,
       ci_eligibility_category = MODERATE,
       ci_district_id = 1,
       ci_village_id = 1,
       ci_latitude = Undefined,
       ci_longitude = Undefined,
       ci_address = ''Jl. Melati 2'',
       ci_phone = Val [],
       ci_family_members = 3,
       ci_monthly_income = Null,
       ci_house_condition_score = Val 0,
       ci_notes = Val [] \<rparr>"

text \<open>An update input with every optional property absent.\<close>

definition no_changes :: "int \<Rightarrow> update_input" where
  "no_changes i =
     \<lparr> ui_id = i,
       ui_head_of_household = None,
       ui_housing_status = None,
       ui_eligibility_category = None,
       ui_district_id = None,
       ui_village_id = None,
       ui_latitude = Undefined,
       ui_longitude = Undefined,
       ui_address = None,
       ui_phone = Undefined,
       ui_family_members = None,
       ui_monthly_income = Undefined,
       ui_house_condition_score = Undefined,
       ui_notes = Undefined \<rparr>"

definition example_backlog_input :: create_backlog_input where
  "example_backlog_input =
     \<lparr> cb_district_id = 1, cb_village_id = 1, cb_backlog_type = NO_HOUSE,
       cb_family_count = 25, cb_year = 2024, cb_month = 6 \<rparr>"

definition example_backlog :: backlog where
  "example_backlog =
     \<lparr> b_id = 1, b_district_id = 1, b_village_id = 1, b_backlog_type = NO_HOUSE,
       b_family_count = 25, b_year = 2024, b_month = 6, b_created_by = 3,
       b_created_at = 100, b_updated_at = 100 \<rparr>"

definition example_audit :: "audit_action \<Rightarrow> timestamp \<Rightarrow> audit_log" where
  "example_audit act t =
     \<lparr> a_id = 1, a_user_id = 3, a_action = act, a_resource_type = ''user'',
       a_resource_id = None, a_details = None, a_ip_address = None, a_created_at = t \<rparr>"

section \<open>Facts about the handlers\<close>

lemmas example_defs =
  example_db_def empty_db_def example_row_def example_create_def no_changes_def

text \<open>A successful create returns the new row and appends it; a failed one writes nothing.\<close>

lemma create_success:
  assumes "createHousingRecord input createdBy now s = (Inr r, s')"
  shows "r = present (new_housing_row input createdBy now (housing_records_id_seq s))"
    and "s' = s\<lparr> housing_records := housing_records s
                    @ [new_housing_row input createdBy now (housing_records_id_seq s)],
                  housing_records_id_seq := housing_records_id_seq s + 1 \<rparr>"
    and "ci_nik input \<notin> h_nik ` set (housing_records s)"
    and "list_ex (\<lambda>v. v_id v = ci_village_id input \<and> v_district_id v = ci_district_id input)
           (villages s)"
  using assms
  by (auto simp: createHousingRecord_def insert_housing_record_def Let_def filter_empty_conv
      list_ex_iff split: if_splits)

lemma create_failure:
  assumes "createHousingRecord input createdBy now s = (Inl e, s')"
  shows "s' = s"
  using assms
  by (auto simp: createHousingRecord_def insert_housing_record_def Let_def split: if_splits)

text \<open>The first row a SELECT by id returns is the first row of the table with that id.\<close>

lemma find_filter_Cons: "List.find P xs = Some x \<Longrightarrow> \<exists>rest. filter P xs = x # rest"
  by (induction xs) (auto split: if_splits)

lemma h_id_apply_set [simp]: "h_id (apply_set u r) = h_id r"
  by (simp add: apply_set_def)

lemma h_nik_apply_set [simp]: "h_nik (apply_set u r) = h_nik r"
  by (simp add: apply_set_def)

lemma find_update_where_id:
  "List.find (\<lambda>x. h_id x = i) (update_where_id i u rows)
     = map_option (apply_set u) (List.find (\<lambda>x. h_id x = i) rows)"
  by (induction rows) (auto simp: update_where_id_def)

lemma update_success:
  assumes "List.find (\<lambda>x. h_id x = ui_id input) (housing_records s) = Some old"
    and "updateHousingRecord input updatedBy now s = (Inr r, s')"
  shows "r = present (apply_set (build_update_values input now) old)"
    and "s' = s\<lparr> housing_records :=
                  update_where_id (ui_id input) (build_update_values input now) (housing_records s) \<rparr>"
    and "validate_location input s = None"
proof -
  obtain rest where f: "filter (\<lambda>x. h_id x = ui_id input) (housing_records s) = old # rest"
    using find_filter_Cons [OF assms(1)] by blast
  from assms(2) show "r = present (apply_set (build_update_values input now) old)"
    by (auto simp: updateHousingRecord_def f Let_def split: option.splits)
  from assms(2) show "s' = s\<lparr> housing_records :=
                  update_where_id (ui_id input) (build_update_values input now) (housing_records s) \<rparr>"
    by (auto simp: updateHousingRecord_def f Let_def split: option.splits)
  from assms(2) show "validate_location input s = None"
    by (auto simp: updateHousingRecord_def f Let_def split: option.splits)
qed

lemma update_result:
  "updateHousingRecord input updatedBy now s = (res, s') \<Longrightarrow>
     s' = s \<or> (validate_location input s = None
              \<and> s' = s\<lparr> housing_records :=
                   update_where_id (ui_id input) (build_update_values input now) (housing_records s) \<rparr>)"
  by (auto simp: updateHousingRecord_def Let_def split: option.splits list.splits)

lemma verify_success:
  assumes "List.find (\<lambda>x. h_id x = vi_id input) (housing_records s) = Some old"
  shows "verifyHousingRecord input verifiedBy now_verified now_updated s =
           (Inr (present (apply_set
                   (verify_values input verifiedBy now_verified now_updated (h_notes old)) old)),
            s\<lparr> housing_records := update_where_id (vi_id input)
                 (verify_values input verifiedBy now_verified now_updated (h_notes old))
                 (housing_records s) \<rparr>)"
proof -
  obtain rest where f: "filter (\<lambda>x. h_id x = vi_id input) (housing_records s) = old # rest"
    using find_filter_Cons [OF assms] by blast
  show ?thesis
    by (simp add: verifyHousingRecord_def f Let_def)
qed

lemma verify_result:
  "verifyHousingRecord input verifiedBy now_verified now_updated s = (res, s') \<Longrightarrow>
     s' = s \<or> (\<exists>n. s' = s\<lparr> housing_records := update_where_id (vi_id input)
                        (verify_values input verifiedBy now_verified now_updated n)
                        (housing_records s) \<rparr>)"
  by (auto simp: verifyHousingRecord_def Let_def split: list.splits)

lemma delete_result:
  "deleteHousingRecord i deletedBy s = (res, s') \<Longrightarrow>
     s' = s \<or> s' = s\<lparr> housing_records := filter (\<lambda>r. h_id r \<noteq> i) (housing_records s) \<rparr>"
  by (auto simp: deleteHousingRecord_def split: if_splits)

section \<open>The claims\<close>

text \<open>
  C1. For an existing housing record and an update that succeeds: when the input
  includes head_of_household, housing_status, eligibility_category, address or
  family_members, the record returned has verification_status PENDING and verified_by,
  verified_at null, whatever they were; when it includes none of them, the three are
  those of the record before the update. The record returned is the one stored.
\<close>

theorem update_resets_verification:
  assumes "List.find (\<lambda>x. h_id x = ui_id input) (housing_records s) = Some old"
    and "updateHousingRecord input updatedBy now s = (Inr r, s')"
  shows "(if ui_head_of_household input \<noteq> None \<or> ui_housing_status input \<noteq> None
             \<or> ui_eligibility_category input \<noteq> None \<or> ui_address input \<noteq> None
             \<or> ui_family_members input \<noteq> None
          then h_verification_status r = PENDING \<and> h_verified_by r = None \<and> h_verified_at r = None
          else h_verification_status r = h_verification_status old
             \<and> h_verified_by r = h_verified_by old \<and> h_verified_at r = h_verified_at old)
       \<and> (\<exists>row. List.find (\<lambda>x. h_id x = ui_id input) (housing_records s') = Some row
                \<and> r = present row)"
  using update_success(1,2) [OF assms] assms(1)
  by (simp add: find_update_where_id present_def apply_set_def build_update_values_def
      hasSignificantChanges_def Let_def)

theorem update_resets_verification_witness:
  "List.find (\<lambda>x. h_id x = 1) (housing_records example_db) = Some example_row
   \<and> h_verification_status example_row = VERIFIED
   \<and> \<not> isl (fst (updateHousingRecord ((no_changes 1)\<lparr> ui_address := Some ''Jl. Baru 5'' \<rparr>)
                     3 900 example_db))
   \<and> h_verification_status
        (projr (fst (updateHousingRecord ((no_changes 1)\<lparr> ui_address := Some ''Jl. Baru 5'' \<rparr>)
                       3 900 example_db))) = PENDING
   \<and> h_verified_by
        (projr (fst (updateHousingRecord ((no_changes 1)\<lparr> ui_address := Some ''Jl. Baru 5'' \<rparr>)
                       3 900 example_db))) = None"
proof -
  let ?inp = "(no_changes 1)\<lparr> ui_address := Some ''Jl. Baru 5'' \<rparr>"
  let ?res = "updateHousingRecord ?inp 3 900 example_db"
  have f: "List.find (\<lambda>x. h_id x = ui_id ?inp) (housing_records example_db) = Some example_row"
    by (simp add: example_defs)
  have ok: "\<not> isl (fst ?res)"
    by (simp add: example_defs updateHousingRecord_def validate_location_def Let_def)
  then have u: "?res = (Inr (projr (fst ?res)), snd ?res)"
    by (cases "fst ?res") (simp_all add: prod_eq_iff)
  have v: "h_verification_status example_row = VERIFIED"
    by (simp add: example_row_def)
  from update_resets_verification [OF f u] f ok v show ?thesis
    by (simp add: no_changes_def)
qed

text \<open>
  C10. When a create succeeds, a house_condition_score of 0 and a phone or notes equal
  to the empty string are stored as null: the record returned, which is the row appended
  to the table, has null in that field.
\<close>

theorem create_stores_null_for_falsy:
  assumes "createHousingRecord input createdBy now s = (Inr r, s')"
  shows "(ci_house_condition_score input = Val 0 \<longrightarrow> h_house_condition_score r = None)
       \<and> (ci_phone input = Val [] \<longrightarrow> h_phone r = None)
       \<and> (ci_notes input = Val [] \<longrightarrow> h_notes r = None)
       \<and> (\<exists>row. housing_records s' = housing_records s @ [row] \<and> r = present row)"
  using create_success(1,2) [OF assms]
  by (simp add: present_def new_housing_row_def)

theorem create_stores_null_for_falsy_witness:
  "ci_house_condition_score example_create = Val 0
   \<and> ci_phone example_create = Val []
   \<and> ci_notes example_create = Val []
   \<and> \<not> isl (fst (createHousingRecord example_create 3 900 example_db))
   \<and> h_house_condition_score (projr (fst (createHousingRecord example_create 3 900 example_db)))
       = None
   \<and> h_phone (projr (fst (createHousingRecord example_create 3 900 example_db))) = None
   \<and> h_notes (projr (fst (createHousingRecord example_create 3 900 example_db))) = None"
proof -
  let ?res = "createHousingRecord example_create 3 900 example_db"
  have ok: "\<not> isl (fst ?res)"
    by (simp add: example_defs createHousingRecord_def insert_housing_record_def Let_def)
  then have c: "?res = (Inr (projr (fst ?res)), snd ?res)"
    by (cases "fst ?res") (simp_all add: prod_eq_iff)
  have i: "ci_house_condition_score example_create = Val 0 \<and> ci_phone example_create = Val []
           \<and> ci_notes example_create = Val []"
    by (simp add: example_create_def)
  from create_stores_null_for_falsy [OF c] ok i show ?thesis
    by simp
qed

text \<open>
  An explicit null for a numeric property never reaches the SET clause: the column
  keeps its value.
\<close>

lemma update_null_numeric_kept:
  assumes "List.find (\<lambda>x. h_id x = ui_id input) (housing_records s) = Some old"
    and "updateHousingRecord input updatedBy now s = (Inr r, s')"
  shows "ui_latitude input = Null \<Longrightarrow> h_latitude r = numeric_out (h_latitude old)"
    and "ui_longitude input = Null \<Longrightarrow> h_longitude r = numeric_out (h_longitude old)"
    and "ui_monthly_income input = Null \<Longrightarrow> h_monthly_income r = numeric_out (h_monthly_income old)"
  using update_success(1) [OF assms]
  by (simp_all add: present_def apply_set_def build_update_values_def Let_def)

text \<open>
  C5. Evaluation of updateHousingRecord on an input whose latitude and phone are both
  an explicit null, for a record that has both: phone is cleared, latitude is not. The
  key \<open>latitude\<close> of \<open>updateValues\<close> gets \<open>null?.toString()\<close>, which is \<open>undefined\<close>, and the
  SET clause leaves an \<open>undefined\<close> value out. The same holds for longitude and
  monthly_income.
\<close>

theorem update_null_latitude_not_cleared:
  "map_sum id h_latitude
      (fst (updateHousingRecord ((no_changes 1)\<lparr> ui_latitude := Null, ui_phone := Null \<rparr>)
              3 900 example_db)) = Inr (Some (- 6))
   \<and> map_sum id h_phone
      (fst (updateHousingRecord ((no_changes 1)\<lparr> ui_latitude := Null, ui_phone := Null \<rparr>)
              3 900 example_db)) = Inr None
   \<and> map h_latitude
      (housing_records
        (snd (updateHousingRecord ((no_changes 1)\<lparr> ui_latitude := Null, ui_phone := Null \<rparr>)
                3 900 example_db))) = [Some (Numeric (- 6))]"
  by (simp add: example_defs updateHousingRecord_def validate_location_def
      build_update_values_def hasSignificantChanges_def apply_set_def update_where_id_def
      present_def numeric_out_def Let_def)

text \<open>
  C6 as stated fails in two places. Notes given as the empty string are provided, yet
  the record keeps its prior notes. And verified_at is the handler's own clock reading,
  which nothing compares with the record's updated_at (written by an earlier call, or by
  the storage's clock at the insert): with a reading of 100 for a record updated at
  500, verified_at is 100.
\<close>

theorem verify_notes_and_time_counterexample:
  "h_notes example_row = Some ''old notes''
   \<and> map_sum id h_notes
       (fst (verifyHousingRecord
               \<lparr> vi_id = 1, vi_verification_status = REJECTED, vi_notes = Val [] \<rparr>
               9 900 901 example_db)) = Inr (Some ''old notes'')
   \<and> h_updated_at example_row = 500
   \<and> map_sum id h_verified_at
       (fst (verifyHousingRecord
               \<lparr> vi_id = 1, vi_verification_status = VERIFIED, vi_notes = Undefined \<rparr>
               9 100 101 example_db)) = Inr (Some 100)"
  by (simp add: example_defs verifyHousingRecord_def verify_values_def notes_or_existing_def
      apply_set_def present_def Let_def)

text \<open>
  C6, amended. For an existing housing record, verifyHousingRecord succeeds whatever
  the record's verification_status was, and the record returned (the one stored) has
  the requested verification_status, verified_by the verifier's id, verified_at the
  time the handler reads from its clock for it, updated_at the time it reads next, and
  as notes the input's notes when they are a non-empty string, the prior notes when
  they are absent, null or the empty string.
\<close>

theorem verify_sets_fields:
  assumes "List.find (\<lambda>x. h_id x = vi_id input) (housing_records s) = Some old"
  shows "\<exists>r s'. verifyHousingRecord input verifiedBy now_verified now_updated s = (Inr r, s')
           \<and> h_verification_status r = vi_verification_status input
           \<and> h_verified_by r = Some verifiedBy
           \<and> h_verified_at r = Some now_verified
           \<and> h_updated_at r = now_updated
           \<and> h_notes r =
               (case vi_notes input of
                  Val t \<Rightarrow> if t = [] then h_notes old else Some t
                | _ \<Rightarrow> h_notes old)
           \<and> (\<exists>row. List.find (\<lambda>x. h_id x = vi_id input) (housing_records s') = Some row
                    \<and> r = present row)"
  using assms
  by (cases "vi_notes input"; cases "h_notes old")
     (simp_all add: verify_success [OF assms] find_update_where_id present_def apply_set_def
        verify_values_def notes_or_existing_def)

theorem verify_sets_fields_witness:
  "List.find (\<lambda>x. h_id x = 1) (housing_records example_db) = Some example_row
   \<and> h_verification_status example_row = VERIFIED
   \<and> map_sum id h_verification_status
       (fst (verifyHousingRecord
               \<lparr> vi_id = 1, vi_verification_status = REJECTED, vi_notes = Val ''no deed'' \<rparr>
               9 900 901 example_db)) = Inr REJECTED
   \<and> map_sum id h_notes
       (fst (verifyHousingRecord
               \<lparr> vi_id = 1, vi_verification_status = REJECTED, vi_notes = Val ''no deed'' \<rparr>
               9 900 901 example_db)) = Inr (Some ''no deed'')
   \<and> map_sum id h_verified_at
       (fst (verifyHousingRecord
               \<lparr> vi_id = 1, vi_verification_status = REJECTED, vi_notes = Val ''no deed'' \<rparr>
               9 900 901 example_db)) = Inr (Some 900)
   \<and> map_sum id h_updated_at
       (fst (verifyHousingRecord
               \<lparr> vi_id = 1, vi_verification_status = REJECTED, vi_notes = Val ''no deed'' \<rparr>
               9 900 901 example_db)) = Inr 901"
proof -
  let ?inp = "\<lparr> vi_id = 1, vi_verification_status = REJECTED, vi_notes = Val ''no deed'' \<rparr>"
  have f: "List.find (\<lambda>x. h_id x = vi_id ?inp) (housing_records example_db) = Some example_row"
    by (simp add: example_defs)
  have v: "h_verification_status example_row = VERIFIED"
    by (simp add: example_row_def)
  from verify_sets_fields [OF f, of 9 900 901] obtain r s' where
    "verifyHousingRecord ?inp 9 900 901 example_db = (Inr r, s')"
    "h_verification_status r = vi_verification_status ?inp"
    "h_verified_at r = Some 900"
    "h_updated_at r = 901"
    "h_notes r = (case vi_notes ?inp of Val t \<Rightarrow> if t = [] then h_notes example_row else Some t
                  | _ \<Rightarrow> h_notes example_row)"
    by blast
  with f v show ?thesis
    by simp
qed

text \<open>
  C2 as stated fails: a createHousingRecord that succeeds on a database with an empty
  audit log leaves the audit log empty.
\<close>

theorem create_emits_no_audit_counterexample:
  "audit_logs example_db = []
   \<and> \<not> isl (fst (createHousingRecord example_create 3 900 example_db))
   \<and> audit_logs (snd (createHousingRecord example_create 3 900 example_db)) = []"
  by (simp add: example_defs createHousingRecord_def insert_housing_record_def Let_def)

lemma audit_logs_create:
  "audit_logs (snd (createHousingRecord input createdBy now s)) = audit_logs s"
  by (simp add: createHousingRecord_def insert_housing_record_def Let_def)

lemma audit_logs_update:
  "audit_logs (snd (updateHousingRecord input updatedBy now s)) = audit_logs s"
  by (simp add: updateHousingRecord_def Let_def split: list.splits option.splits)

lemma audit_logs_verify:
  "audit_logs (snd (verifyHousingRecord input verifiedBy now1 now2 s)) = audit_logs s"
  by (simp add: verifyHousingRecord_def Let_def split: list.splits)

lemma audit_logs_delete:
  "audit_logs (snd (deleteHousingRecord i deletedBy s)) = audit_logs s"
  by (simp add: deleteHousingRecord_def)

text \<open>
  C2, amended. No call of createHousingRecord, updateHousingRecord, verifyHousingRecord
  or deleteHousingRecord, successful or not, emits an audit entry: the audit log after
  the call is the audit log before it. A call of logAuditAction appends exactly one
  entry, with the action and resource type it is given and the resource id it is
  given (null when that is absent or 0).
\<close>

theorem handlers_leave_audit_log:
  "audit_logs (snd (createHousingRecord input createdBy now s)) = audit_logs s
   \<and> audit_logs (snd (updateHousingRecord uinput updatedBy now s)) = audit_logs s
   \<and> audit_logs (snd (verifyHousingRecord vinput verifiedBy now now' s)) = audit_logs s
   \<and> audit_logs (snd (deleteHousingRecord i deletedBy s)) = audit_logs s
   \<and> audit_logs (snd (logAuditAction userId action resourceType resourceId details ipAddress now s))
       = audit_logs s
           @ [fst (logAuditAction userId action resourceType resourceId details ipAddress now s)]
   \<and> a_action (fst (logAuditAction userId action resourceType resourceId details ipAddress now s))
       = action
   \<and> a_resource_type
        (fst (logAuditAction userId action resourceType resourceId details ipAddress now s))
       = resourceType
   \<and> a_resource_id
        (fst (logAuditAction userId action resourceType resourceId details ipAddress now s))
       = (case resourceId of None \<Rightarrow> None | Some n \<Rightarrow> if n = 0 then None else Some n)"
  by (cases resourceId)
     (simp_all add: audit_logs_create audit_logs_update audit_logs_verify audit_logs_delete
        logAuditAction_def Let_def)

theorem handlers_leave_audit_log_witness:
  "audit_logs (snd (createHousingRecord example_create 3 900 example_db)) = []
   \<and> audit_logs (snd (updateHousingRecord (no_changes 1) 3 900 example_db)) = []
   \<and> audit_logs (snd (deleteHousingRecord 1 3 example_db)) = []
   \<and> length (audit_logs (snd (logAuditAction 3 CREATE ''housing_record'' (Some 1) None None 900
                                 example_db))) = 1
   \<and> a_resource_id (fst (logAuditAction 3 CREATE ''housing_record'' (Some 1) None None 900
                            example_db)) = Some 1"
proof -
  have e: "audit_logs example_db = []"
    by (simp add: example_defs)
  from handlers_leave_audit_log
         [of example_create 3 900 example_db "no_changes 1" 3
             "\<lparr> vi_id = 1, vi_verification_status = VERIFIED, vi_notes = Undefined \<rparr>"
             3 900 1 3 3 CREATE "''housing_record''" "Some 1" None None]
  show ?thesis
    by (simp add: e)
qed

lemma create_result:
  "createHousingRecord input createdBy now s = (res, s') \<Longrightarrow>
     s' = s \<or> (ci_nik input \<notin> h_nik ` set (housing_records s)
              \<and> list_ex (\<lambda>v. v_id v = ci_village_id input \<and> v_district_id v = ci_district_id input)
                   (villages s)
              \<and> s' = s\<lparr> housing_records := housing_records s
                          @ [new_housing_row input createdBy now (housing_records_id_seq s)],
                        housing_records_id_seq := housing_records_id_seq s + 1 \<rparr>)"
  by (auto simp: createHousingRecord_def insert_housing_record_def Let_def filter_empty_conv
      list_ex_iff split: if_splits)

lemma map_nik_update_where_id: "map h_nik (update_where_id i u rows) = map h_nik rows"
  by (induction rows) (simp_all add: update_where_id_def)

lemma nik_unique_create:
  assumes "nik_unique s" and "createHousingRecord input createdBy now s = (res, s')"
  shows "nik_unique s'"
  using create_result [OF assms(2)] assms(1)
  by (auto simp: nik_unique_def new_housing_row_def)

lemma nik_unique_update:
  assumes "nik_unique s" and "updateHousingRecord input updatedBy now s = (res, s')"
  shows "nik_unique s'"
  using update_result [OF assms(2)] assms(1)
  by (auto simp: nik_unique_def map_nik_update_where_id)

lemma nik_unique_verify:
  assumes "nik_unique s" and "verifyHousingRecord input verifiedBy now1 now2 s = (res, s')"
  shows "nik_unique s'"
  using verify_result [OF assms(2)] assms(1)
  by (auto simp: nik_unique_def map_nik_update_where_id)

lemma nik_unique_delete:
  assumes "nik_unique s" and "deleteHousingRecord i deletedBy s = (res, s')"
  shows "nik_unique s'"
  using delete_result [OF assms(2)] assms(1)
  by (auto simp: nik_unique_def distinct_map_filter)

lemma reachable_nik_unique: "reachable s \<Longrightarrow> nik_unique s"
proof (induction rule: reachable.induct)
  case (start s)
  then show ?case by (simp add: nik_unique_def)
next
  case (create s input createdBy now res s')
  then show ?case by (blast intro: nik_unique_create)
next
  case (update s uinput updatedBy now res s')
  then show ?case by (blast intro: nik_unique_update)
next
  case (verify s vinput verifiedBy now1 now2 res s')
  then show ?case by (blast intro: nik_unique_verify)
next
  case (delete s i deletedBy dres s')
  then show ?case by (blast intro: nik_unique_delete)
next
  case (other s s')
  then show ?case by (simp add: nik_unique_def)
qed

lemma create_duplicate_nik:
  assumes "ci_nik input \<in> h_nik ` set (housing_records s)"
  shows "isl (fst (createHousingRecord input createdBy now s))"
    and "snd (createHousingRecord input createdBy now s) = s"
    and "ci_district_id input \<in> d_id ` set (districts s) \<Longrightarrow>
         list_ex (\<lambda>v. v_id v = ci_village_id input \<and> v_district_id v = ci_district_id input)
           (villages s) \<Longrightarrow>
         fst (createHousingRecord input createdBy now s) = Inl NIK_already_exists"
  using assms
  by (auto simp: createHousingRecord_def insert_housing_record_def Let_def filter_empty_conv
      list_ex_iff)

text \<open>
  C3. In every reachable state no two housing records have the same nik, and a
  createHousingRecord whose nik is the nik of an existing record fails and leaves the
  database as it was; when the district and village of the input pass their checks,
  which come first, the failure is the uniqueness conflict "NIK already exists".
\<close>

theorem nik_unique_invariant:
  assumes "reachable s"
  shows "distinct (map h_nik (housing_records s))
       \<and> (ci_nik input \<in> h_nik ` set (housing_records s) \<longrightarrow>
            isl (fst (createHousingRecord input createdBy now s))
          \<and> snd (createHousingRecord input createdBy now s) = s
          \<and> (ci_district_id input \<in> d_id ` set (districts s)
               \<and> list_ex (\<lambda>v. v_id v = ci_village_id input \<and> v_district_id v = ci_district_id input)
                    (villages s) \<longrightarrow>
             fst (createHousingRecord input createdBy now s) = Inl NIK_already_exists))"
  using reachable_nik_unique [OF assms] create_duplicate_nik [of input s createdBy now]
  by (simp add: nik_unique_def)

theorem nik_unique_invariant_witness:
  "map h_nik (housing_records (snd (createHousingRecord example_create 3 900 empty_db)))
     = [''3201010101010002'']
   \<and> distinct (map h_nik (housing_records (snd (createHousingRecord example_create 3 900 empty_db))))
   \<and> fst (createHousingRecord example_create 4 950
            (snd (createHousingRecord example_create 3 900 empty_db))) = Inl NIK_already_exists
   \<and> snd (createHousingRecord example_create 4 950
            (snd (createHousingRecord example_create 3 900 empty_db)))
       = snd (createHousingRecord example_create 3 900 empty_db)"
proof -
  let ?s1 = "snd (createHousingRecord example_create 3 900 empty_db)"
  have "reachable empty_db"
    by (rule reachable.start) (simp add: empty_db_def)
  then have r: "reachable ?s1"
    by (rule reachable.create [where res = "fst (createHousingRecord example_create 3 900 empty_db)"])
       simp
  have m: "map h_nik (housing_records ?s1) = [''3201010101010002'']"
    by (simp add: example_defs createHousingRecord_def insert_housing_record_def
        new_housing_row_def Let_def)
  have n: "ci_nik example_create \<in> h_nik ` set (housing_records ?s1)"
    by (simp add: example_defs createHousingRecord_def insert_housing_record_def
        new_housing_row_def Let_def)
  have d: "ci_district_id example_create \<in> d_id ` set (districts ?s1)"
    by (simp add: example_defs createHousingRecord_def insert_housing_record_def Let_def)
  have v: "list_ex (\<lambda>v. v_id v = ci_village_id example_create
                       \<and> v_district_id v = ci_district_id example_create) (villages ?s1)"
    by (simp add: example_defs createHousingRecord_def insert_housing_record_def Let_def)
  from nik_unique_invariant [OF r, of example_create 4 950] m n d v show ?thesis
    by simp
qed


















lemma same_entry_fun:
  "same_entry input =
     (\<lambda>b. b_district_id b = cb_district_id input \<and> b_village_id b = cb_village_id input
          \<and> b_backlog_type b = cb_backlog_type input \<and> b_year b = cb_year input
          \<and> b_month b = cb_month input)"
  by (rule ext) (simp add: same_entry_def)

lemma createBacklog_success:
  assumes "createBacklog input createdBy now s = (Inr b, s')"
  shows "filter (\<lambda>d. d_id d = cb_district_id input) (districts s) \<noteq> []"
    and "filter (\<lambda>v. v_id v = cb_village_id input \<and> v_district_id v = cb_district_id input)
           (villages s) \<noteq> []"
    and "filter (same_entry input) (backlogs s) = []"
    and "same_entry input b"
    and "s' = s\<lparr> backlogs := backlogs s @ [b], backlogs_id_seq := backlogs_id_seq s + 1 \<rparr>"
  using assms
  by (auto simp: createBacklog_def insert_backlog_def same_entry_fun Let_def split: if_splits)

lemma createBacklog_existing:
  assumes "filter (\<lambda>d. d_id d = cb_district_id input) (districts s) \<noteq> []"
    and "filter (\<lambda>v. v_id v = cb_village_id input \<and> v_district_id v = cb_district_id input)
           (villages s) \<noteq> []"
    and "filter (same_entry input) (backlogs s) \<noteq> []"
  shows "createBacklog input createdBy now s = (Inl Backlog_entry_already_exists, s)"
  using assms
  by (simp add: createBacklog_def same_entry_fun Let_def)

lemma createBacklog_fresh:
  assumes "filter (\<lambda>d. d_id d = cb_district_id input) (districts s) \<noteq> []"
    and "filter (\<lambda>v. v_id v = cb_village_id input \<and> v_district_id v = cb_district_id input)
           (villages s) \<noteq> []"
    and "filter (same_entry input) (backlogs s) = []"
  shows "\<not> isl (fst (createBacklog input createdBy now s))"
    and "backlogs (snd (createBacklog input createdBy now s))
           = backlogs s @ [projr (fst (createBacklog input createdBy now s))]"
    and "same_entry input (projr (fst (createBacklog input createdBy now s)))"
  using assms
  by (simp_all add: createBacklog_def insert_backlog_def same_entry_fun Let_def)

lemma createBacklog_result:
  "createBacklog input createdBy now t = (res, t') \<Longrightarrow>
     districts t' = districts t \<and> villages t' = villages t
     \<and> (backlogs t' = backlogs t \<or> (\<exists>row. backlogs t' = backlogs t @ [row]))"
  by (auto simp: createBacklog_def insert_backlog_def Let_def split: if_splits)

lemma updateBacklog_result:
  "updateBacklog i familyCount updatedBy now t = (res, t') \<Longrightarrow>
     districts t' = districts t \<and> villages t' = villages t
     \<and> (backlogs t' = backlogs t
        \<or> backlogs t' =
            map (\<lambda>b. if b_id b = i then b\<lparr> b_family_count := familyCount, b_updated_at := now \<rparr>
                      else b) (backlogs t))"
  by (auto simp: updateBacklog_def split: list.splits)

text \<open>
  What a later state keeps: every district, every village, and an entry for every
  (district, village, type, year, month) that had one.
\<close>

lemma later_keeps:
  assumes "later s t"
  shows "set (districts s) \<subseteq> set (districts t) \<and> set (villages s) \<subseteq> set (villages t)
       \<and> (\<forall>input. (\<exists>b \<in> set (backlogs s). same_entry input b)
             \<longrightarrow> (\<exists>b \<in> set (backlogs t). same_entry input b))"
  using assms
proof (induction rule: later.induct)
  case (same s)
  show ?case by simp
next
  case (create_backlog s t input createdBy now res t')
  from createBacklog_result [OF create_backlog.hyps(2)]
  have "districts t' = districts t" "villages t' = villages t"
    "set (backlogs t) \<subseteq> set (backlogs t')"
    by auto
  with create_backlog.IH show ?case
    by (metis (no_types, lifting) subsetD)
next
  case (update_backlog s t i familyCount updatedBy now res t')
  have "\<exists>b \<in> set (map (\<lambda>b. if b_id b = i
                then b\<lparr> b_family_count := familyCount, b_updated_at := now \<rparr> else b) (backlogs t)).
          same_entry input b"
    if "\<exists>b \<in> set (backlogs t). same_entry input b" for input
  proof -
    from that obtain b where b: "b \<in> set (backlogs t)" "same_entry input b"
      by blast
    let ?f = "\<lambda>b. if b_id b = i then b\<lparr> b_family_count := familyCount, b_updated_at := now \<rparr> else b"
    from b(2) have "same_entry input (?f b)"
      by (simp add: same_entry_def)
    moreover from b(1) have "?f b \<in> set (map ?f (backlogs t))"
      by (rule imageI [of b "set (backlogs t)" ?f, simplified set_map [symmetric]])
    ultimately show ?thesis
      by blast
  qed
  with updateBacklog_result [OF update_backlog.hyps(2)] update_backlog.IH show ?case
    by (elim conjE disjE) simp_all
next
  case (other_handler s t t')
  then show ?case
    by auto
qed

text \<open>
  C7. After a createBacklog that succeeded, in the state it returned and in every
  later state (whatever backlogs were created or updated in between), a createBacklog
  with the same (district_id, village_id, backlog_type, year, month) fails with the
  "already exists" conflict of the handler's own check, not with the storage's
  constraint violation, and leaves the database as it was; a create that differs from
  the first only in backlog_type, for which no entry exists at that time, succeeds and
  appends its entry.
\<close>

theorem createBacklog_rejects_duplicate:
  assumes "createBacklog input createdBy now s = (Inr b, s')" and "later s' t"
  shows "backlogs s' = backlogs s @ [b]
       \<and> (cb_district_id second = cb_district_id input \<and> cb_village_id second = cb_village_id input
            \<and> cb_backlog_type second = cb_backlog_type input \<and> cb_year second = cb_year input
            \<and> cb_month second = cb_month input \<longrightarrow>
          createBacklog second createdBy' now' t = (Inl Backlog_entry_already_exists, t))
       \<and> (cb_district_id other = cb_district_id input \<and> cb_village_id other = cb_village_id input
            \<and> cb_backlog_type other \<noteq> cb_backlog_type input \<and> cb_year other = cb_year input
            \<and> cb_month other = cb_month input
            \<and> filter (same_entry other) (backlogs t) = [] \<longrightarrow>
          \<not> isl (fst (createBacklog other createdBy' now' t))
          \<and> backlogs (snd (createBacklog other createdBy' now' t))
              = backlogs t @ [projr (fst (createBacklog other createdBy' now' t))]
          \<and> b_backlog_type (projr (fst (createBacklog other createdBy' now' t)))
              = cb_backlog_type other)"
proof -
  note f = createBacklog_success [OF assms(1)]
  note k = later_keeps [OF assms(2)]
  have s': "districts s' = districts s" "villages s' = villages s"
      "backlogs s' = backlogs s @ [b]"
    by (simp_all add: f(5))
  from f(1) obtain d where d: "d \<in> set (districts s)" "d_id d = cb_district_id input"
    by (auto simp: filter_empty_conv)
  from f(2) obtain v where v: "v \<in> set (villages s)" "v_id v = cb_village_id input"
      "v_district_id v = cb_district_id input"
    by (auto simp: filter_empty_conv)
  from d k have dt: "filter (\<lambda>d. d_id d = cb_district_id input) (districts t) \<noteq> []"
    by (auto simp: filter_empty_conv s')
  from v k have vt: "filter (\<lambda>v. v_id v = cb_village_id input
             \<and> v_district_id v = cb_district_id input) (villages t) \<noteq> []"
    by (auto simp: filter_empty_conv s')
  from f(4) have "\<exists>b \<in> set (backlogs s'). same_entry input b"
    by (auto simp: s')
  with k have "\<exists>b \<in> set (backlogs t). same_entry input b"
    by blast
  then have bt: "filter (same_entry input) (backlogs t) \<noteq> []"
    by (auto simp: filter_empty_conv)
  have dup: "createBacklog second createdBy' now' t = (Inl Backlog_entry_already_exists, t)"
    if "cb_district_id second = cb_district_id input" "cb_village_id second = cb_village_id input"
      "cb_backlog_type second = cb_backlog_type input" "cb_year second = cb_year input"
      "cb_month second = cb_month input"
  proof (rule createBacklog_existing)
    from dt that show "filter (\<lambda>d. d_id d = cb_district_id second) (districts t) \<noteq> []"
      by simp
    from vt that show "filter (\<lambda>v. v_id v = cb_village_id second
             \<and> v_district_id v = cb_district_id second) (villages t) \<noteq> []"
      by simp
    from bt that show "filter (same_entry second) (backlogs t) \<noteq> []"
      by (simp add: same_entry_fun)
  qed
  have fresh: "\<not> isl (fst (createBacklog other createdBy' now' t))
          \<and> backlogs (snd (createBacklog other createdBy' now' t))
              = backlogs t @ [projr (fst (createBacklog other createdBy' now' t))]
          \<and> b_backlog_type (projr (fst (createBacklog other createdBy' now' t)))
              = cb_backlog_type other"
    if "cb_district_id other = cb_district_id input" "cb_village_id other = cb_village_id input"
      "cb_backlog_type other \<noteq> cb_backlog_type input" "cb_year other = cb_year input"
      "cb_month other = cb_month input" "filter (same_entry other) (backlogs t) = []"
  proof -
    from dt that have d': "filter (\<lambda>d. d_id d = cb_district_id other) (districts t) \<noteq> []"
      by simp
    from vt that have v': "filter (\<lambda>v. v_id v = cb_village_id other
             \<and> v_district_id v = cb_district_id other) (villages t) \<noteq> []"
      by simp
    from createBacklog_fresh [OF d' v' that(6), of createdBy' now'] show ?thesis
      by (simp add: same_entry_def)
  qed
  from s'(3) dup fresh show ?thesis
    by blast
qed

theorem createBacklog_rejects_duplicate_witness:
  "\<not> isl (fst (createBacklog example_backlog_input 3 100 empty_db))
   \<and> \<not> isl (fst (createBacklog (example_backlog_input\<lparr> cb_month := 7 \<rparr>) 3 150
                     (snd (createBacklog example_backlog_input 3 100 empty_db))))
   \<and> createBacklog (example_backlog_input\<lparr> cb_family_count := 40 \<rparr>) 4 200
       (snd (updateBacklog 1 30 3 180
          (snd (createBacklog (example_backlog_input\<lparr> cb_month := 7 \<rparr>) 3 150
             (snd (createBacklog example_backlog_input 3 100 empty_db))))))
       = (Inl Backlog_entry_already_exists,
          snd (updateBacklog 1 30 3 180
            (snd (createBacklog (example_backlog_input\<lparr> cb_month := 7 \<rparr>) 3 150
               (snd (createBacklog example_backlog_input 3 100 empty_db))))))
   \<and> \<not> isl (fst (createBacklog (example_backlog_input\<lparr> cb_backlog_type := UNINHABITABLE_HOUSE \<rparr>)
                     4 200
                     (snd (updateBacklog 1 30 3 180
                        (snd (createBacklog (example_backlog_input\<lparr> cb_month := 7 \<rparr>) 3 150
                           (snd (createBacklog example_backlog_input 3 100 empty_db))))))))"
proof -
  let ?first = "createBacklog example_backlog_input 3 100 empty_db"
  let ?between = "createBacklog (example_backlog_input\<lparr> cb_month := 7 \<rparr>) 3 150 (snd ?first)"
  let ?t = "snd (updateBacklog 1 30 3 180 (snd ?between))"
  let ?second = "example_backlog_input\<lparr> cb_family_count := 40 \<rparr>"
  let ?other = "example_backlog_input\<lparr> cb_backlog_type := UNINHABITABLE_HOUSE \<rparr>"
  have ok: "\<not> isl (fst ?first)"
    by (simp add: example_backlog_input_def empty_db_def createBacklog_def insert_backlog_def
        Let_def)
  then have c: "?first = (Inr (projr (fst ?first)), snd ?first)"
    by (cases "fst ?first") (simp_all add: prod_eq_iff)
  have ok2: "\<not> isl (fst ?between)"
    by (simp add: example_backlog_input_def empty_db_def createBacklog_def insert_backlog_def
        same_entry_def Let_def)
  have "later (snd ?first) (snd ?first)"
    by (rule later.same)
  then have "later (snd ?first) (snd ?between)"
    by (rule later.create_backlog [where res = "fst ?between"]) simp
  then have l: "later (snd ?first) ?t"
    by (rule later.update_backlog
          [where res = "fst (updateBacklog 1 30 3 180 (snd ?between))"]) simp
  have e: "filter (same_entry ?other) (backlogs ?t) = []"
    by (simp add: example_backlog_input_def empty_db_def createBacklog_def insert_backlog_def
        updateBacklog_def same_entry_def Let_def)
  have t: "cb_backlog_type ?other \<noteq> cb_backlog_type example_backlog_input"
    by (simp add: example_backlog_input_def)
  from createBacklog_rejects_duplicate
         [OF c l, where second = ?second and other = ?other and createdBy' = 4 and now' = 200]
       ok ok2 e t
  show ?thesis
    by simp
qed

text \<open>
  C8 as stated fails for a start year after the end year: no (year, month) lies between
  (2024, 1) and (2023, 12), yet the entry of June 2024 is returned.
\<close>

theorem range_inverted_counterexample:
  "filter_mset (in_range 2024 1 2023 12)
      (mset (backlogs (empty_db\<lparr> backlogs := [example_backlog] \<rparr>))) = {#}
   \<and> getBacklogsByDateRange 2024 1 2023 12 (empty_db\<lparr> backlogs := [example_backlog] \<rparr>)
       = {#example_backlog#}"
  by (simp add: getBacklogsByDateRange_def in_range_def ym_le_def example_backlog_def empty_db_def)

text \<open>
  C8, amended. For every store of backlog entries and every range whose start year is
  not after its end year, getBacklogsByDateRange returns exactly the entries whose
  (year, month) lies between (startYear, startMonth) and (endYear, endMonth) in the
  order by year, then month, each as often as it is stored and in no particular
  order, and so no entry when none lies there. For every range: when
  startYear = endYear the result is the entries of that year with month between the
  bounds, otherwise the entries of the start year with month \<ge> startMonth, those of
  the end year with month \<le> endMonth, and those of the years strictly in between.
\<close>

theorem getBacklogsByDateRange_lexicographic:
  "(startYear \<le> endYear \<longrightarrow>
      getBacklogsByDateRange startYear startMonth endYear endMonth s
        = filter_mset (in_range startYear startMonth endYear endMonth) (mset (backlogs s)))
   \<and> (startYear \<le> endYear
        \<and> filter_mset (in_range startYear startMonth endYear endMonth) (mset (backlogs s)) = {#}
        \<longrightarrow> getBacklogsByDateRange startYear startMonth endYear endMonth s = {#})
   \<and> (startYear = endYear \<longrightarrow>
        getBacklogsByDateRange startYear startMonth endYear endMonth s
          = filter_mset (\<lambda>b. b_year b = startYear \<and> startMonth \<le> b_month b \<and> b_month b \<le> endMonth)
              (mset (backlogs s)))
   \<and> (startYear \<noteq> endYear \<longrightarrow>
        getBacklogsByDateRange startYear startMonth endYear endMonth s
          = filter_mset (\<lambda>b. b_year b = startYear \<and> startMonth \<le> b_month b) (mset (backlogs s))
            + filter_mset (\<lambda>b. b_year b = endYear \<and> b_month b \<le> endMonth) (mset (backlogs s))
            + filter_mset (\<lambda>b. startYear < b_year b \<and> b_year b < endYear) (mset (backlogs s)))"
proof -
  have lex: "getBacklogsByDateRange startYear startMonth endYear endMonth s
          = filter_mset (in_range startYear startMonth endYear endMonth) (mset (backlogs s))"
    if "startYear \<le> endYear"
    using that
    by (auto simp: getBacklogsByDateRange_def in_range_def ym_le_def intro!: filter_mset_cong)
  have parts: "getBacklogsByDateRange startYear startMonth endYear endMonth s
          = filter_mset (\<lambda>b. b_year b = startYear \<and> startMonth \<le> b_month b) (mset (backlogs s))
            + filter_mset (\<lambda>b. b_year b = endYear \<and> b_month b \<le> endMonth) (mset (backlogs s))
            + filter_mset (\<lambda>b. startYear < b_year b \<and> b_year b < endYear) (mset (backlogs s))"
    if "startYear \<noteq> endYear"
    using that
    by (intro multiset_eqI) (auto simp: getBacklogsByDateRange_def)
  have year: "getBacklogsByDateRange startYear startMonth endYear endMonth s
          = filter_mset (\<lambda>b. b_year b = startYear \<and> startMonth \<le> b_month b \<and> b_month b \<le> endMonth)
              (mset (backlogs s))"
    if "startYear = endYear"
    using that
    by (simp add: getBacklogsByDateRange_def)
  show ?thesis
  proof (intro conjI impI)
    show "getBacklogsByDateRange startYear startMonth endYear endMonth s
        = filter_mset (in_range startYear startMonth endYear endMonth) (mset (backlogs s))"
      if "startYear \<le> endYear"
      by (rule lex [OF that])
    show "getBacklogsByDateRange startYear startMonth endYear endMonth s = {#}"
      if "startYear \<le> endYear
          \<and> filter_mset (in_range startYear startMonth endYear endMonth) (mset (backlogs s)) = {#}"
      using that lex by simp
    show "getBacklogsByDateRange startYear startMonth endYear endMonth s
          = filter_mset (\<lambda>b. b_year b = startYear \<and> startMonth \<le> b_month b \<and> b_month b \<le> endMonth)
              (mset (backlogs s))"
      if "startYear = endYear"
      by (rule year [OF that])
    show "getBacklogsByDateRange startYear startMonth endYear endMonth s
          = filter_mset (\<lambda>b. b_year b = startYear \<and> startMonth \<le> b_month b) (mset (backlogs s))
            + filter_mset (\<lambda>b. b_year b = endYear \<and> b_month b \<le> endMonth) (mset (backlogs s))
            + filter_mset (\<lambda>b. startYear < b_year b \<and> b_year b < endYear) (mset (backlogs s))"
      if "startYear \<noteq> endYear"
      by (rule parts [OF that])
  qed
qed

theorem getBacklogsByDateRange_lexicographic_witness:
  "getBacklogsByDateRange 2023 10 2024 5
     (empty_db\<lparr> backlogs :=
        [example_backlog\<lparr> b_year := 2023, b_month := 11 \<rparr>,
         example_backlog\<lparr> b_year := 2024, b_month := 2 \<rparr>,
         example_backlog\<lparr> b_year := 2024, b_month := 10 \<rparr>] \<rparr>)
     = {#example_backlog\<lparr> b_year := 2023, b_month := 11 \<rparr>,
         example_backlog\<lparr> b_year := 2024, b_month := 2 \<rparr>#}
   \<and> getBacklogsByDateRange 2024 4 2024 8
       (empty_db\<lparr> backlogs :=
          [example_backlog\<lparr> b_month := 3 \<rparr>, example_backlog\<lparr> b_month := 6 \<rparr>,
           example_backlog\<lparr> b_month := 9 \<rparr>] \<rparr>)
       = {#example_backlog\<lparr> b_month := 6 \<rparr>#}"
proof -
  let ?s = "empty_db\<lparr> backlogs :=
        [example_backlog\<lparr> b_year := 2023, b_month := 11 \<rparr>,
         example_backlog\<lparr> b_year := 2024, b_month := 2 \<rparr>,
         example_backlog\<lparr> b_year := 2024, b_month := 10 \<rparr>] \<rparr>"
  let ?t = "empty_db\<lparr> backlogs :=
          [example_backlog\<lparr> b_month := 3 \<rparr>, example_backlog\<lparr> b_month := 6 \<rparr>,
           example_backlog\<lparr> b_month := 9 \<rparr>] \<rparr>"
  from getBacklogsByDateRange_lexicographic [of 2023 2024 10 5 ?s]
  have a: "getBacklogsByDateRange 2023 10 2024 5 ?s
      = filter_mset (in_range 2023 10 2024 5) (mset (backlogs ?s))"
    by simp
  from getBacklogsByDateRange_lexicographic [of 2024 2024 4 8 ?t]
  have b: "getBacklogsByDateRange 2024 4 2024 8 ?t
      = filter_mset (in_range 2024 4 2024 8) (mset (backlogs ?t))"
    by simp
  show ?thesis
    unfolding a b
    by (simp add: in_range_def ym_le_def example_backlog_def)
qed

lemma floor_tenth_nat: "\<lfloor>(1 / 10) * rat_of_nat n\<rfloor> = int n div 10"
proof -
  have "(1 / 10) * rat_of_nat n = of_int (int n) / of_int 10"
    by simp
  then show ?thesis
    by (simp only: floor_divide_of_int_eq)
qed

lemma floor_nat_div_10: "\<lfloor>rat_of_nat n / 10\<rfloor> = int n div 10"
  using floor_tenth_nat [of n] by simp

lemma count_where_card:
  "count_where p s = int (card {i. i < length (audit_logs s) \<and> p (audit_logs s ! i)})"
  by (simp add: count_where_def length_filter_conv_card)

text \<open>
  C9. In the report, failed_logins is the number of audit entries with action LOGIN
  created at or after the instant 7 days before the call, data_exports the number of
  those with action EXPORT, recent_changes the number of all entries created since
  that instant, and suspicious_activities is the floor of one tenth of the number of
  entries created at or after the instant 1 day before the call: that number divided
  by 10 without remainder, and 0 when there is no such entry.
\<close>

theorem getSecurityReport_counts:
  "failed_logins (getSecurityReport now_week now_day s)
     = int (card {i. i < length (audit_logs s) \<and> a_action (audit_logs s ! i) = LOGIN
                    \<and> now_week - 7 * 86400000 \<le> a_created_at (audit_logs s ! i)})
   \<and> data_exports (getSecurityReport now_week now_day s)
     = int (card {i. i < length (audit_logs s) \<and> a_action (audit_logs s ! i) = EXPORT
                    \<and> now_week - 7 * 86400000 \<le> a_created_at (audit_logs s ! i)})
   \<and> recent_changes (getSecurityReport now_week now_day s)
     = int (card {i. i < length (audit_logs s)
                    \<and> now_week - 7 * 86400000 \<le> a_created_at (audit_logs s ! i)})
   \<and> suspicious_activities (getSecurityReport now_week now_day s)
     = \<lfloor>(1 / 10) * rat_of_nat (card {i. i < length (audit_logs s)
                    \<and> now_day - 86400000 \<le> a_created_at (audit_logs s ! i)})\<rfloor>
   \<and> suspicious_activities (getSecurityReport now_week now_day s)
     = int (card {i. i < length (audit_logs s)
                    \<and> now_day - 86400000 \<le> a_created_at (audit_logs s ! i)}) div 10
   \<and> ((\<forall>a \<in> set (audit_logs s). a_created_at a < now_day - 86400000) \<longrightarrow>
        suspicious_activities (getSecurityReport now_week now_day s) = 0)"
proof -
  let ?day = "{i. i < length (audit_logs s) \<and> now_day - 86400000 \<le> a_created_at (audit_logs s ! i)}"
  have susp: "suspicious_activities (getSecurityReport now_week now_day s) = int (card ?day) div 10"
    by (simp add: getSecurityReport_def Let_def days_before_def floor_nat_div_10 count_where_card)
  have fl: "\<lfloor>(1 / 10) * rat_of_nat (card ?day)\<rfloor> = int (card ?day) div 10"
    by (rule floor_tenth_nat)
  have none: "?day = {}" if "\<forall>a \<in> set (audit_logs s). a_created_at a < now_day - 86400000"
  proof -
    have "\<not> now_day - 86400000 \<le> a_created_at (audit_logs s ! i)" if "i < length (audit_logs s)" for i
      using \<open>\<forall>a \<in> set (audit_logs s). a_created_at a < now_day - 86400000\<close> nth_mem [OF that]
      by fastforce
    then show ?thesis
      by blast
  qed
  have counts:
    "failed_logins (getSecurityReport now_week now_day s)
       = int (card {i. i < length (audit_logs s) \<and> a_action (audit_logs s ! i) = LOGIN
                    \<and> now_week - 7 * 86400000 \<le> a_created_at (audit_logs s ! i)})"
    "data_exports (getSecurityReport now_week now_day s)
       = int (card {i. i < length (audit_logs s) \<and> a_action (audit_logs s ! i) = EXPORT
                    \<and> now_week - 7 * 86400000 \<le> a_created_at (audit_logs s ! i)})"
    "recent_changes (getSecurityReport now_week now_day s)
       = int (card {i. i < length (audit_logs s)
                    \<and> now_week - 7 * 86400000 \<le> a_created_at (audit_logs s ! i)})"
    by (simp_all add: getSecurityReport_def Let_def days_before_def count_where_card)
  from susp fl
  have susp_floor: "suspicious_activities (getSecurityReport now_week now_day s)
      = \<lfloor>(1 / 10) * rat_of_nat (card ?day)\<rfloor>"
    by (simp only:)
  from none have zero: "suspicious_activities (getSecurityReport now_week now_day s) = 0"
    if "\<forall>a \<in> set (audit_logs s). a_created_at a < now_day - 86400000"
  proof -
    from none [OF that] have "card ?day = 0"
      by (simp only: card.empty)
    with susp show ?thesis
      by (simp only: of_nat_0 div_0)
  qed
  show ?thesis
    by (intro conjI impI counts susp susp_floor; erule zero)
qed

theorem getSecurityReport_counts_witness:
  "suspicious_activities
     (getSecurityReport 1000000000 1000000000
        (empty_db\<lparr> audit_logs := [example_audit LOGIN 5, example_audit EXPORT 7] \<rparr>)) = 0
   \<and> suspicious_activities
       (getSecurityReport 1000000000 1000000000
          (empty_db\<lparr> audit_logs := replicate 25 (example_audit LOGIN 999999999) \<rparr>)) = 2
   \<and> failed_logins
       (getSecurityReport 1000000000 1000000000
          (empty_db\<lparr> audit_logs := replicate 25 (example_audit LOGIN 999999999) \<rparr>)) = 25"
proof -
  let ?old = "empty_db\<lparr> audit_logs := [example_audit LOGIN 5, example_audit EXPORT 7] \<rparr>"
  let ?new = "empty_db\<lparr> audit_logs := replicate 25 (example_audit LOGIN 999999999) \<rparr>"
  have o: "\<forall>a \<in> set (audit_logs ?old). a_created_at a < 1000000000 - 86400000"
    by (simp add: example_audit_def)
  have n: "{i. i < length (audit_logs ?new)
              \<and> 1000000000 - 86400000 \<le> a_created_at (audit_logs ?new ! i)} = {..<25}"
    by (auto simp: example_audit_def)
  have l: "{i. i < length (audit_logs ?new) \<and> a_action (audit_logs ?new ! i) = LOGIN
              \<and> 1000000000 - 7 * 86400000 \<le> a_created_at (audit_logs ?new ! i)} = {..<25}"
    by (auto simp: example_audit_def)
  from getSecurityReport_counts [of 1000000000 1000000000 ?old] o
  have a: "suspicious_activities (getSecurityReport 1000000000 1000000000 ?old) = 0"
    by blast
  from getSecurityReport_counts [of 1000000000 1000000000 ?new]
  have b: "suspicious_activities (getSecurityReport 1000000000 1000000000 ?new) = 2
           \<and> failed_logins (getSecurityReport 1000000000 1000000000 ?new) = 25"
    unfolding n l by simp
  from a b show ?thesis
    by simp
qed

end
